theory Spec2Isabelle
  imports Complex_Main
begin

section \<open>Numeric cells of a frame\<close>

text \<open>
  A numeric cell of the data frame is a float64: a finite number, plus or minus
  infinity, or NaN (the "unknown" of the specification). Finite numbers are modelled
  as exact rationals; the rounding error of binary floating point and the sign of
  zero are not modelled.
\<close>

datatype val = NaN | PInf | NInf | Fin rat

fun isna :: "val \<Rightarrow> bool" where
  "isna NaN = True"
| "isna _ = False"

fun vneg :: "val \<Rightarrow> val" where
  "vneg NaN = NaN"
| "vneg PInf = NInf"
| "vneg NInf = PInf"
| "vneg (Fin a) = Fin (- a)"

fun vadd :: "val \<Rightarrow> val \<Rightarrow> val" where
  "vadd NaN _ = NaN"
| "vadd _ NaN = NaN"
| "vadd PInf NInf = NaN"
| "vadd NInf PInf = NaN"
| "vadd PInf _ = PInf"
| "vadd _ PInf = PInf"
| "vadd NInf _ = NInf"
| "vadd _ NInf = NInf"
| "vadd (Fin a) (Fin b) = Fin (a + b)"

definition vsub :: "val \<Rightarrow> val \<Rightarrow> val" where
  "vsub a b = vadd a (vneg b)"

text \<open>The sign of a non-NaN value: 1, 0 or -1.\<close>

fun vsgn :: "val \<Rightarrow> int" where
  "vsgn NaN = 0"
| "vsgn PInf = 1"
| "vsgn NInf = - 1"
| "vsgn (Fin a) = (if a > 0 then 1 else if a < 0 then - 1 else 0)"

definition inf_of_sign :: "int \<Rightarrow> val" where
  "inf_of_sign s = (if s > 0 then PInf else if s < 0 then NInf else NaN)"

fun vmul :: "val \<Rightarrow> val \<Rightarrow> val" where
  "vmul NaN _ = NaN"
| "vmul _ NaN = NaN"
| "vmul (Fin a) (Fin b) = Fin (a * b)"
| "vmul a b = inf_of_sign (vsgn a * vsgn b)"

text \<open>
  Float division as pandas performs it (numpy true division, no exception):
  a finite non-zero number over zero is an infinity, zero over zero is NaN.
\<close>

fun vdiv :: "val \<Rightarrow> val \<Rightarrow> val" where
  "vdiv NaN _ = NaN"
| "vdiv _ NaN = NaN"
| "vdiv (Fin a) (Fin b) = (if b = 0 then inf_of_sign (vsgn (Fin a)) else Fin (a / b))"
| "vdiv (Fin a) _ = Fin 0"
| "vdiv a (Fin b) = inf_of_sign (vsgn a * (if b < 0 then - 1 else 1))"
| "vdiv _ _ = NaN"

text \<open>Comparisons: any comparison with NaN is false.\<close>

fun vlt :: "val \<Rightarrow> val \<Rightarrow> bool" where
  "vlt NaN _ = False"
| "vlt _ NaN = False"
| "vlt NInf NInf = False"
| "vlt NInf _ = True"
| "vlt _ NInf = False"
| "vlt PInf _ = False"
| "vlt _ PInf = True"
| "vlt (Fin a) (Fin b) = (a < b)"

definition vgt :: "val \<Rightarrow> val \<Rightarrow> bool" where
  "vgt a b = vlt b a"

text \<open>\<open>round(2)\<close>: to the nearest multiple of 0.01, ties to the even one.\<close>

definition rint :: "rat \<Rightarrow> int" where
  "rint q = (let f = \<lfloor>q\<rfloor>; d = q - of_int f in
     if d < 1 / 2 then f
     else if 1 / 2 < d then f + 1
     else if even f then f else f + 1)"

fun round2 :: "val \<Rightarrow> val" where
  "round2 (Fin q) = Fin (of_int (rint (q * 100)) / 100)"
| "round2 v = v"

text \<open>
  \<open>Series.mean(skipna=True)\<close> returns a scalar: the mean of the cells that are not NaN
  as a numpy float, or, when there is no such cell (an empty or all-NaN column), the
  constant \<open>np.nan\<close>, which is a plain Python float. (The optional accelerator
  bottleneck, which returns a numpy NaN for a non-empty all-NaN column, is not modelled.)
\<close>

datatype scalar = NpFloat val | PyFloat val

definition mean_skipna :: "val list \<Rightarrow> scalar" where
  "mean_skipna xs = (let ys = filter (\<lambda>v. \<not> isna v) xs in
     if ys = [] then PyFloat NaN
     else NpFloat (vdiv (foldl vadd (Fin 0) ys) (Fin (of_nat (length ys)))))"

text \<open>\<open>.round(2)\<close> on that scalar: a numpy float has the method, a Python float has
  not and the call raises.\<close>

datatype error = AttributeError

fun scalar_round2 :: "scalar \<Rightarrow> error + val" where
  "scalar_round2 (NpFloat v) = Inr (round2 v)"
| "scalar_round2 (PyFloat v) = Inl AttributeError"

text \<open>\<open>Series.shift(1)\<close> moves every cell one row down and \<open>shift(-1)\<close> one row up;
  the vacated cell is NaN.\<close>

definition shift_down :: "val list \<Rightarrow> val list" where
  "shift_down xs = take (length xs) (NaN # xs)"

definition shift_up :: "val list \<Rightarrow> val list" where
  "shift_up xs = (if xs = [] then [] else tl xs @ [NaN])"

text \<open>\<open>np.select\<close> on one row: the choice of the first condition that holds.\<close>

fun np_select :: "bool list \<Rightarrow> 'a list \<Rightarrow> 'a \<Rightarrow> 'a" where
  "np_select (c # cs) (r # rs) d = (if c then r else np_select cs rs d)"
| "np_select _ _ d = d"

section \<open>The frame and its cleaning (lines 31 to 37)\<close>

text \<open>A row as the provider delivers it: every cell is text.\<close>

record raw_row =
  raw_Symbol :: string
  raw_Series :: string
  raw_Date :: string
  raw_ClosePrice :: string
  raw_TotalTradedQuantity :: string
  raw_NoofTrades :: string
  raw_DlyQttoTradedQty :: string

text \<open>A cleaned row: a text cell is \<open>None\<close> where the placeholder was replaced by NaN.\<close>

record row =
  Symbol :: "string option"
  Series :: "string option"
  Date :: "string option"
  ClosePrice :: val
  TotalTradedQuantity :: val
  NoofTrades :: val
  DlyQttoTradedQty :: val

text \<open>
  \<open>df.sort_index(ascending=False)\<close>: the provider's frame carries the default index
  0, 1, 2, ... in row order, so sorting the index in descending order reverses the rows.
\<close>

definition sort_index_desc :: "'a list \<Rightarrow> 'a list" where
  "sort_index_desc df = rev df"

text \<open>\<open>df.replace('-', np.nan)\<close> on a text cell.\<close>

definition replace_dash :: "string \<Rightarrow> string option" where
  "replace_dash s = (if s = ''-'' then None else Some s)"

text \<open>
  A numeric cell: the placeholder becomes NaN, commas are removed, the text is parsed
  and the number rounded. The parser \<open>to_numeric\<close> stands for
  \<open>pd.to_numeric(errors='coerce')\<close> on one cell, which gives NaN for text that is not a
  number; it is a parameter of the model.
\<close>

definition clean_numeric :: "(string \<Rightarrow> val) \<Rightarrow> string \<Rightarrow> val" where
  "clean_numeric to_numeric s =
     round2 (case replace_dash s of
               None \<Rightarrow> NaN
             | Some t \<Rightarrow> to_numeric (filter (\<lambda>c. c \<noteq> CHR '','') t))"

definition clean_row :: "(string \<Rightarrow> val) \<Rightarrow> raw_row \<Rightarrow> row" where
  "clean_row to_numeric r =
     \<lparr> Symbol = replace_dash (raw_Symbol r),
       Series = replace_dash (raw_Series r),
       Date = replace_dash (raw_Date r),
       ClosePrice = clean_numeric to_numeric (raw_ClosePrice r),
       TotalTradedQuantity = clean_numeric to_numeric (raw_TotalTradedQuantity r),
       NoofTrades = clean_numeric to_numeric (raw_NoofTrades r),
       DlyQttoTradedQty = clean_numeric to_numeric (raw_DlyQttoTradedQty r) \<rparr>"

definition clean :: "(string \<Rightarrow> val) \<Rightarrow> raw_row list \<Rightarrow> row list" where
  "clean to_numeric raw = map (clean_row to_numeric) (sort_index_desc raw)"

section \<open>Derived columns and remarks (lines 40 to 57)\<close>

record enriched = row +
  ACTION :: val
  avgACTION :: val
  avgDEL :: val
  chngACT :: val
  chngDEL :: val
  SHIFT :: val
  iCHANGE :: val
  CHANGE :: val
  REMARKS :: string

text \<open>\<open>((x - avg) / avg * 100).round(2)\<close>, used for both deviation columns.\<close>

definition pct_dev :: "val \<Rightarrow> val \<Rightarrow> val" where
  "pct_dev x avg = round2 (vmul (vdiv (vsub x avg) avg) (Fin 100))"

text \<open>\<open>((SHIFT - ClosePrice) / ClosePrice * 100).round(2)\<close>.\<close>

definition pct_ichange :: "val \<Rightarrow> val \<Rightarrow> val" where
  "pct_ichange s c = round2 (vmul (vdiv (vsub s c) c) (Fin 100))"

text \<open>The four conditions of one row, in the order of the source, and the remarks.\<close>

definition conditions :: "val \<Rightarrow> val \<Rightarrow> val \<Rightarrow> val \<Rightarrow> bool list" where
  "conditions dly avg_del act avg_act =
     [ vgt dly avg_del \<and> vlt act avg_act,
       vlt dly avg_del \<and> vgt act avg_act,
       vgt dly avg_del \<and> vgt act avg_act,
       vlt dly avg_del \<and> vlt act avg_act ]"

definition remarks :: "string list" where
  "remarks = [''ACC(G-LZ)'', ''BR(G-HZ)'', ''JACKPOT'', ''NA'']"

definition remark_of :: "val \<Rightarrow> val \<Rightarrow> val \<Rightarrow> val \<Rightarrow> string" where
  "remark_of dly avg_del act avg_act =
     np_select (conditions dly avg_del act avg_act) remarks ''NA''"

definition action_col :: "row list \<Rightarrow> val list" where
  "action_col df = map (\<lambda>r. round2 (vdiv (TotalTradedQuantity r) (NoofTrades r))) df"

definition shift_col :: "row list \<Rightarrow> val list" where
  "shift_col df = shift_down (map ClosePrice df)"

definition ichange_col :: "row list \<Rightarrow> val list" where
  "ichange_col df = map2 pct_ichange (shift_col df) (map ClosePrice df)"

definition change_col :: "row list \<Rightarrow> val list" where
  "change_col df = map round2 (shift_up (ichange_col df))"

text \<open>The enriched frame: row \<open>i\<close> gets cell \<open>i\<close> of every derived column; the two
  averages are the same in every row.\<close>

definition derive_row :: "row list \<Rightarrow> val \<Rightarrow> val \<Rightarrow> nat \<Rightarrow> enriched" where
  "derive_row df avg_act avg_dl i =
     (let r = df ! i; act = action_col df ! i in
      \<lparr> Symbol = Symbol r, Series = Series r, Date = Date r,
        ClosePrice = ClosePrice r,
        TotalTradedQuantity = TotalTradedQuantity r,
        NoofTrades = NoofTrades r,
        DlyQttoTradedQty = DlyQttoTradedQty r,
        ACTION = act,
        avgACTION = avg_act,
        avgDEL = avg_dl,
        chngACT = pct_dev act avg_act,
        chngDEL = pct_dev (DlyQttoTradedQty r) avg_dl,
        SHIFT = shift_col df ! i,
        iCHANGE = ichange_col df ! i,
        CHANGE = change_col df ! i,
        REMARKS = remark_of (DlyQttoTradedQty r) avg_dl act avg_act \<rparr>)"

text \<open>Lines 40 to 57. The two averages are computed first, in the order of the source;
  either can raise.\<close>

definition derive :: "row list \<Rightarrow> error + enriched list" where
  "derive df =
     (case scalar_round2 (mean_skipna (action_col df)) of
        Inl e \<Rightarrow> Inl e
      | Inr avg_act \<Rightarrow>
          (case scalar_round2 (mean_skipna (map DlyQttoTradedQty df)) of
             Inl e \<Rightarrow> Inl e
           | Inr avg_dl \<Rightarrow> Inr (map (derive_row df avg_act avg_dl) [0..<length df])))"

definition analyse :: "(string \<Rightarrow> val) \<Rightarrow> raw_row list \<Rightarrow> error + enriched list" where
  "analyse to_numeric raw = derive (clean to_numeric raw)"

section \<open>The plot section (lines 60 to 71)\<close>

text \<open>
  The exponentially weighted mean of pandas with \<open>adjust=False\<close>, \<open>ignore_na=False\<close> and
  no minimum number of periods: the loop keeps the weighted value and the weight of the
  past, restarts at the first observation after a NaN state, and leaves the weighted
  value alone when the new cell equals it.
\<close>

fun ewm_loop :: "rat \<Rightarrow> val \<Rightarrow> rat \<Rightarrow> val list \<Rightarrow> val list" where
  "ewm_loop \<alpha> w old_wt [] = []"
| "ewm_loop \<alpha> w old_wt (cur # xs) =
     (if \<not> isna w then
        (let ow = old_wt * (1 - \<alpha>) in
         if \<not> isna cur then
           (let w' = (if w \<noteq> cur
                      then vdiv (vadd (vmul (Fin ow) w) (vmul (Fin \<alpha>) cur)) (Fin (ow + \<alpha>))
                      else w)
            in w' # ewm_loop \<alpha> w' 1 xs)
         else w # ewm_loop \<alpha> w ow xs)
      else if \<not> isna cur then cur # ewm_loop \<alpha> cur old_wt xs
      else w # ewm_loop \<alpha> w old_wt xs)"

fun ewm_mean :: "rat \<Rightarrow> val list \<Rightarrow> val list" where
  "ewm_mean \<alpha> [] = []"
| "ewm_mean \<alpha> (x # xs) = x # ewm_loop \<alpha> x 1 xs"

text \<open>\<open>span=30\<close>: the smoothing factor is 2 / (span + 1).\<close>

definition span_alpha :: "rat \<Rightarrow> rat" where
  "span_alpha n = 2 / (n + 1)"

text \<open>\<open>df.dropna(subset=['ClosePrice'])\<close>.\<close>

definition df_plot :: "enriched list \<Rightarrow> enriched list" where
  "df_plot df = filter (\<lambda>r. \<not> isna (ClosePrice r)) df"

text \<open>
  \<open>pd.to_datetime(format='%d-%b-%Y', errors='coerce')\<close> on one cell: a NaN cell and
  text that is not a date give NaT (\<open>None\<close>). The parser of the text is a parameter.
\<close>

definition to_datetime_cell :: "(string \<Rightarrow> 'd option) \<Rightarrow> string option \<Rightarrow> 'd option" where
  "to_datetime_cell to_datetime c = (case c of None \<Rightarrow> None | Some s \<Rightarrow> to_datetime s)"

definition plot_dates :: "(string \<Rightarrow> 'd option) \<Rightarrow> enriched list \<Rightarrow> 'd option list" where
  "plot_dates to_datetime df = map (\<lambda>r. to_datetime_cell to_datetime (Date r)) (df_plot df)"

definition ema30 :: "enriched list \<Rightarrow> val list" where
  "ema30 df = ewm_mean (span_alpha 30) (map ClosePrice (df_plot df))"

definition colors :: "(string \<times> string) list" where
  "colors = [(''JACKPOT'', ''green''), (''ACC(G-LZ)'', ''yellow''), (''BR(G-HZ)'', ''red'')]"

text \<open>The points of one scatter call: the rows of \<open>df_plot\<close> with the given remark.\<close>

definition scatter_points ::
  "(string \<Rightarrow> 'd option) \<Rightarrow> enriched list \<Rightarrow> string \<Rightarrow> ('d option \<times> val) list" where
  "scatter_points to_datetime df label =
     map (\<lambda>r. (to_datetime_cell to_datetime (Date r), ClosePrice r))
       (filter (\<lambda>r. REMARKS r = label) (df_plot df))"

record 'd chart =
  close_line :: "('d option \<times> val) list"
  ema_line :: "('d option \<times> val) list"
  scatters :: "(string \<times> string \<times> ('d option \<times> val) list) list"

definition build_chart :: "(string \<Rightarrow> 'd option) \<Rightarrow> enriched list \<Rightarrow> 'd chart" where
  "build_chart to_datetime df =
     \<lparr> close_line = zip (plot_dates to_datetime df) (map ClosePrice (df_plot df)),
       ema_line = zip (plot_dates to_datetime df) (ema30 df),
       scatters = map (\<lambda>(label, color). (label, color, scatter_points to_datetime df label))
                    colors \<rparr>"

section \<open>The data table (lines 81 to 83)\<close>

record display_row =
  d_Symbol :: "string option"
  d_Date :: "string option"
  d_chngACT :: val
  d_chngDEL :: val
  d_REMARKS :: string
  d_ClosePrice :: val
  d_CHANGE :: val
  d_DlyQttoTradedQty :: val


definition project :: "enriched \<Rightarrow> display_row" where
  "project r =
     \<lparr> d_Symbol = Symbol r, d_Date = Date r, d_chngACT = chngACT r, d_chngDEL = chngDEL r,
       d_REMARKS = REMARKS r, d_ClosePrice = ClosePrice r, d_CHANGE = CHANGE r,
       d_DlyQttoTradedQty = DlyQttoTradedQty r \<rparr>"

text \<open>\<open>df[[...]].head(50)\<close>.\<close>

definition df_display :: "enriched list \<Rightarrow> display_row list" where
  "df_display df = take 50 (map project df)"

text \<open>The columns given to \<open>background_gradient\<close> as \<open>subset\<close>.\<close>

definition gradient_subset :: "string list" where
  "gradient_subset = [''%chngACT'', ''%chngDEL'', ''%DlyQttoTradedQty'']"

record 'd page =
  out_chart :: "'d chart"
  out_table :: "display_row list"
  out_gradient :: "string list"

text \<open>The body of the \<open>try\<close> block after the fetch: an exception leaves it before the
  chart and the table exist.\<close>

definition run ::
  "(string \<Rightarrow> val) \<Rightarrow> (string \<Rightarrow> 'd option) \<Rightarrow> raw_row list \<Rightarrow> error + 'd page" where
  "run to_numeric to_datetime raw =
     (case analyse to_numeric raw of
        Inl e \<Rightarrow> Inl e
      | Inr df \<Rightarrow>
          Inr \<lparr> out_chart = build_chart to_datetime df,
                out_table = df_display df,
                out_gradient = gradient_subset \<rparr>)"

section \<open>The classifier as the specification words it\<close>

text \<open>The three guards ACC(G-LZ), BR(G-HZ) and JACKPOT in priority order, with NA as
  the default; the fourth guard of the source is left out.\<close>

definition remark_three_guards :: "val \<Rightarrow> val \<Rightarrow> val \<Rightarrow> val \<Rightarrow> string" where
  "remark_three_guards dly avg_dl act avg_act =
     (if vgt dly avg_dl \<and> vlt act avg_act then ''ACC(G-LZ)''
      else if vlt dly avg_dl \<and> vgt act avg_act then ''BR(G-HZ)''
      else if vgt dly avg_dl \<and> vgt act avg_act then ''JACKPOT''
      else ''NA'')"

text \<open>The moving average as the specification words it: the first value is the first
  close, every later value is close times \<open>\<alpha>\<close> plus the previous value times \<open>1 - \<alpha>\<close>.\<close>

fun ema_at :: "rat \<Rightarrow> rat list \<Rightarrow> nat \<Rightarrow> rat" where
  "ema_at \<alpha> cs 0 = cs ! 0"
| "ema_at \<alpha> cs (Suc i) = cs ! Suc i * \<alpha> + ema_at \<alpha> cs i * (1 - \<alpha>)"

section \<open>Parsers and batches for the examples\<close>

text \<open>
  An instance of \<open>to_numeric\<close>: plain decimal literals (digits, an optional fraction,
  an optional minus sign) are numbers, any other text is NaN.
\<close>

definition digit_of :: "char \<Rightarrow> int option" where
  "digit_of c = map_of (zip ''0123456789'' [0, 1, 2, 3, 4, 5, 6, 7, 8, 9]) c"

fun digits_val :: "int \<Rightarrow> string \<Rightarrow> int option" where
  "digits_val acc [] = Some acc"
| "digits_val acc (c # cs) =
     (case digit_of c of None \<Rightarrow> None | Some d \<Rightarrow> digits_val (10 * acc + d) cs)"

definition parse_unsigned :: "string \<Rightarrow> rat option" where
  "parse_unsigned s =
     (let ip = takeWhile (\<lambda>c. c \<noteq> CHR ''.'') s;
          fp = drop 1 (dropWhile (\<lambda>c. c \<noteq> CHR ''.'') s)
      in if ip = [] \<and> fp = [] then None
         else case (digits_val 0 ip, digits_val 0 fp) of
                (Some a, Some b) \<Rightarrow> Some (of_int a + of_int b / 10 ^ length fp)
              | _ \<Rightarrow> None)"

definition parse_decimal :: "string \<Rightarrow> val" where
  "parse_decimal s =
     (case s of
        CHR ''-'' # t \<Rightarrow> (case parse_unsigned t of None \<Rightarrow> NaN | Some q \<Rightarrow> Fin (- q))
      | _ \<Rightarrow> (case parse_unsigned s of None \<Rightarrow> NaN | Some q \<Rightarrow> Fin q))"

text \<open>
  An instance of \<open>to_datetime\<close> for the format \<open>%d-%b-%Y\<close>: day, abbreviated English
  month name and year, separated by hyphens, as (year, month, day); any other text is NaT.
\<close>

definition month_of :: "string \<Rightarrow> int option" where
  "month_of m = map_of (zip [''Jan'', ''Feb'', ''Mar'', ''Apr'', ''May'', ''Jun'',
     ''Jul'', ''Aug'', ''Sep'', ''Oct'', ''Nov'', ''Dec''] [1, 2, 3, 4, 5, 6, 7, 8, 9, 10, 11, 12]) m"

definition days_in_month :: "int \<Rightarrow> int \<Rightarrow> int" where
  "days_in_month y m =
     (if m = 2 then (if y mod 4 = 0 \<and> (y mod 100 \<noteq> 0 \<or> y mod 400 = 0) then 29 else 28)
      else if m = 4 \<or> m = 6 \<or> m = 9 \<or> m = 11 then 30 else 31)"

definition parse_dmy :: "string \<Rightarrow> (int \<times> int \<times> int) option" where
  "parse_dmy s =
     (let ds = takeWhile (\<lambda>c. c \<noteq> CHR ''-'') s;
          r1 = drop 1 (dropWhile (\<lambda>c. c \<noteq> CHR ''-'') s);
          ms = takeWhile (\<lambda>c. c \<noteq> CHR ''-'') r1;
          ys = drop 1 (dropWhile (\<lambda>c. c \<noteq> CHR ''-'') r1)
      in if ds = [] \<or> 2 < length ds \<or> length ys \<noteq> 4 then None
         else case (digits_val 0 ds, month_of ms, digits_val 0 ys) of
                (Some d, Some m, Some y) \<Rightarrow>
                  if 1 \<le> d \<and> d \<le> days_in_month y m then Some (y, m, d) else None
              | _ \<Rightarrow> None)"

definition mk_raw :: "string \<Rightarrow> string \<Rightarrow> string \<Rightarrow> string \<Rightarrow> string \<Rightarrow> raw_row" where
  "mk_raw d c q n p =
     \<lparr> raw_Symbol = ''TCS'', raw_Series = ''EQ'', raw_Date = d, raw_ClosePrice = c,
       raw_TotalTradedQuantity = q, raw_NoofTrades = n, raw_DlyQttoTradedQty = p \<rparr>"

text \<open>Four days in the provider's order (oldest first); the closes read 100, 102, 99,
  105 from the newest day back.\<close>

definition example_batch :: "raw_row list" where
  "example_batch =
     [ mk_raw ''01-Jan-2025'' ''105'' ''1,000,000'' ''10,000'' ''60.5'',
       mk_raw ''02-Jan-2025'' ''99'' ''5,00,000'' ''10,000'' ''40'',
       mk_raw ''03-Jan-2025'' ''102'' ''9,00,000'' ''10,000'' ''30'',
       mk_raw ''06-Jan-2025'' ''100'' ''4,00,000'' ''10,000'' ''70'' ]"


text \<open>Four days: one whose date is the placeholder, one whose date is in another
  format, one with the placeholder for its close, and one with all cells well formed.\<close>

definition odd_dates_batch :: "raw_row list" where
  "odd_dates_batch =
     [ mk_raw ''-'' ''105'' ''500'' ''10'' ''60.5'',
       mk_raw ''2025-01-02'' ''99'' ''400'' ''10'' ''40'',
       mk_raw ''03-Jan-2025'' ''-'' ''900'' ''10'' ''30'',
       mk_raw ''06-Jan-2025'' ''100'' ''400'' ''10'' ''70'' ]"

text \<open>Fifty-one days: the oldest has the placeholder for its close.\<close>

definition late_gap_batch :: "raw_row list" where
  "late_gap_batch =
     mk_raw ''01-Jan-2025'' ''-'' ''500'' ''10'' ''60.5''
       # replicate 50 (mk_raw ''02-Jan-2025'' ''99'' ''400'' ''10'' ''40'')"

text \<open>The enriched frame of that batch (newest day first).\<close>

definition example_enriched :: "enriched list" where
  "example_enriched =
     [ \<lparr> Symbol = Some ''TCS'', Series = Some ''EQ'', Date = Some ''06-Jan-2025'',
         ClosePrice = Fin 100, TotalTradedQuantity = Fin 400000, NoofTrades = Fin 10000,
         DlyQttoTradedQty = Fin 70, ACTION = Fin 40, avgACTION = Fin 70,
         avgDEL = Fin (5012 / 100), chngACT = Fin (- (4286 / 100)),
         chngDEL = Fin (3966 / 100), SHIFT = NaN, iCHANGE = NaN,
         CHANGE = Fin (- (196 / 100)), REMARKS = ''ACC(G-LZ)'' \<rparr>,
       \<lparr> Symbol = Some ''TCS'', Series = Some ''EQ'', Date = Some ''03-Jan-2025'',
         ClosePrice = Fin 102, TotalTradedQuantity = Fin 900000, NoofTrades = Fin 10000,
         DlyQttoTradedQty = Fin 30, ACTION = Fin 90, avgACTION = Fin 70,
         avgDEL = Fin (5012 / 100), chngACT = Fin (2857 / 100),
         chngDEL = Fin (- (4014 / 100)), SHIFT = Fin 100,
         iCHANGE = Fin (- (196 / 100)), CHANGE = Fin (303 / 100),
         REMARKS = ''BR(G-HZ)'' \<rparr>,
       \<lparr> Symbol = Some ''TCS'', Series = Some ''EQ'', Date = Some ''02-Jan-2025'',
         ClosePrice = Fin 99, TotalTradedQuantity = Fin 500000, NoofTrades = Fin 10000,
         DlyQttoTradedQty = Fin 40, ACTION = Fin 50, avgACTION = Fin 70,
         avgDEL = Fin (5012 / 100), chngACT = Fin (- (2857 / 100)),
         chngDEL = Fin (- (2019 / 100)), SHIFT = Fin 102,
         iCHANGE = Fin (303 / 100), CHANGE = Fin (- (571 / 100)),
         REMARKS = ''NA'' \<rparr>,
       \<lparr> Symbol = Some ''TCS'', Series = Some ''EQ'', Date = Some ''01-Jan-2025'',
         ClosePrice = Fin 105, TotalTradedQuantity = Fin 1000000, NoofTrades = Fin 10000,
         DlyQttoTradedQty = Fin (605 / 10), ACTION = Fin 100, avgACTION = Fin 70,
         avgDEL = Fin (5012 / 100), chngACT = Fin (4286 / 100),
         chngDEL = Fin (2071 / 100), SHIFT = Fin 99,
         iCHANGE = Fin (- (571 / 100)), CHANGE = NaN,
         REMARKS = ''JACKPOT'' \<rparr> ]"

text \<open>The enriched frame of the batch with the odd dates.\<close>

definition odd_dates_enriched :: "enriched list" where
  "odd_dates_enriched =
     [ \<lparr> Symbol = Some ''TCS'', Series = Some ''EQ'', Date = Some ''06-Jan-2025'',
         ClosePrice = Fin 100, TotalTradedQuantity = Fin 400, NoofTrades = Fin 10,
         DlyQttoTradedQty = Fin 70, ACTION = Fin 40, avgACTION = Fin 55,
         avgDEL = Fin (5012 / 100), chngACT = Fin (- (2727 / 100)),
         chngDEL = Fin (3966 / 100), SHIFT = NaN, iCHANGE = NaN,
         CHANGE = NaN, REMARKS = ''ACC(G-LZ)'' \<rparr>,
       \<lparr> Symbol = Some ''TCS'', Series = Some ''EQ'', Date = Some ''03-Jan-2025'',
         ClosePrice = NaN, TotalTradedQuantity = Fin 900, NoofTrades = Fin 10,
         DlyQttoTradedQty = Fin 30, ACTION = Fin 90, avgACTION = Fin 55,
         avgDEL = Fin (5012 / 100), chngACT = Fin (6364 / 100),
         chngDEL = Fin (- (4014 / 100)), SHIFT = Fin 100, iCHANGE = NaN,
         CHANGE = NaN, REMARKS = ''BR(G-HZ)'' \<rparr>,
       \<lparr> Symbol = Some ''TCS'', Series = Some ''EQ'', Date = Some ''2025-01-02'',
         ClosePrice = Fin 99, TotalTradedQuantity = Fin 400, NoofTrades = Fin 10,
         DlyQttoTradedQty = Fin 40, ACTION = Fin 40, avgACTION = Fin 55,
         avgDEL = Fin (5012 / 100), chngACT = Fin (- (2727 / 100)),
         chngDEL = Fin (- (2019 / 100)), SHIFT = NaN, iCHANGE = NaN,
         CHANGE = Fin (- (571 / 100)), REMARKS = ''NA'' \<rparr>,
       \<lparr> Symbol = Some ''TCS'', Series = Some ''EQ'', Date = None,
         ClosePrice = Fin 105, TotalTradedQuantity = Fin 500, NoofTrades = Fin 10,
         DlyQttoTradedQty = Fin (605 / 10), ACTION = Fin 50, avgACTION = Fin 55,
         avgDEL = Fin (5012 / 100), chngACT = Fin (- (909 / 100)),
         chngDEL = Fin (2071 / 100), SHIFT = Fin 99,
         iCHANGE = Fin (- (571 / 100)), CHANGE = NaN,
         REMARKS = ''ACC(G-LZ)'' \<rparr> ]"

section \<open>Basic facts\<close>




lemma length_clean: "length (clean tn raw) = length raw"
  by (simp add: clean_def sort_index_desc_def)

lemma derive_Inr_length: "derive df = Inr out \<Longrightarrow> length out = length df"
  by (auto simp: derive_def split: sum.splits)

lemma analyse_length: "analyse tn raw = Inr df \<Longrightarrow> length df = length raw"
  by (simp add: analyse_def derive_Inr_length length_clean)

lemma derive_nth:
  "derive df = Inr out \<Longrightarrow> i < length df \<Longrightarrow>
     \<exists>a d. scalar_round2 (mean_skipna (action_col df)) = Inr a \<and>
       scalar_round2 (mean_skipna (map DlyQttoTradedQty df)) = Inr d \<and>
       out ! i = derive_row df a d i"
  by (auto simp: derive_def split: sum.splits)

lemma analyse_example: "analyse parse_decimal example_batch = Inr example_enriched"
  by code_simp

lemma analyse_odd_dates: "analyse parse_decimal odd_dates_batch = Inr odd_dates_enriched"
  by code_simp

section \<open>Remarks\<close>

lemma remark_of_rule:
  "remark_of d ad a aa =
     (if vgt d ad \<and> vlt a aa then ''ACC(G-LZ)''
      else if vlt d ad \<and> vgt a aa then ''BR(G-HZ)''
      else if vgt d ad \<and> vgt a aa then ''JACKPOT''
      else ''NA'')"
  by (simp add: remark_of_def conditions_def remarks_def)

lemma remark_of_range:
  "remark_of d ad a aa \<in> {''JACKPOT'', ''ACC(G-LZ)'', ''BR(G-HZ)'', ''NA''}"
  by (simp add: remark_of_rule)



lemma enriched_remark:
  assumes "derive df = Inr out" "i < length df"
  shows "REMARKS (out ! i) =
     remark_of (DlyQttoTradedQty (out ! i)) (avgDEL (out ! i)) (ACTION (out ! i)) (avgACTION (out ! i))"
  using derive_nth[OF assms] by (auto simp: derive_row_def Let_def)




text \<open>
  C9. The fourth guard of the source (delivery below its average and action below its
  average, giving NA) is redundant: the classifier with the three guards ACC(G-LZ),
  BR(G-HZ), JACKPOT and the default NA computes the same remark as the four-guard
  classifier of the source, for all operands.
\<close>

theorem three_guards_equal: "remark_three_guards d ad a aa = remark_of d ad a aa"
  by (simp add: remark_of_rule remark_three_guards_def)

section \<open>The price-change chain\<close>

lemma rint_of_int: "rint (of_int n) = n"
  by (simp add: rint_def)

lemma round2_idem: "round2 (round2 v) = round2 v"
  by (cases v) (simp_all add: rint_of_int)

lemma shift_down_nth:
  "i < length xs \<Longrightarrow> shift_down xs ! i = (if i = 0 then NaN else xs ! (i - 1))"
  by (cases i) (simp_all add: shift_down_def)

lemma shift_up_nth:
  "i < length xs \<Longrightarrow> shift_up xs ! i = (if Suc i < length xs then xs ! Suc i else NaN)"
  by (cases xs) (auto simp: shift_up_def nth_append nth_Cons' less_Suc_eq)

lemma length_shift_down: "length (shift_down xs) = length xs"
  by (simp add: shift_down_def)

lemma length_shift_up: "length (shift_up xs) = length xs"
  by (cases xs) (simp_all add: shift_up_def)

lemma length_ichange_col: "length (ichange_col df) = length df"
  by (simp add: ichange_col_def shift_col_def length_shift_down)

lemma ichange_col_nth:
  "i < length df \<Longrightarrow>
     ichange_col df ! i = pct_ichange (shift_col df ! i) (ClosePrice (df ! i))"
  by (simp add: ichange_col_def shift_col_def length_shift_down)

lemma shift_col_nth:
  "i < length df \<Longrightarrow>
     shift_col df ! i = (if i = 0 then NaN else ClosePrice (df ! (i - 1)))"
  by (simp add: shift_col_def shift_down_nth)

lemma pct_ichange_round: "round2 (pct_ichange s c) = pct_ichange s c"
  by (simp add: pct_ichange_def round2_idem)

lemma change_col_nth:
  "i < length df \<Longrightarrow>
     change_col df ! i = (if Suc i < length df then ichange_col df ! Suc i else NaN)"
  by (simp add: change_col_def length_shift_up length_ichange_col shift_up_nth
      ichange_col_nth pct_ichange_round)

lemma enriched_price_cells:
  assumes "derive df = Inr out" "i < length df"
  shows "ClosePrice (out ! i) = ClosePrice (df ! i) \<and> SHIFT (out ! i) = shift_col df ! i \<and>
     iCHANGE (out ! i) = ichange_col df ! i \<and> CHANGE (out ! i) = change_col df ! i"
  using derive_nth[OF assms] by (auto simp: derive_row_def Let_def)









section \<open>Ratios and percentages\<close>

lemma vdiv_by_nan: "vdiv x NaN = NaN"
  by (cases x) simp_all

lemma vdiv_nan: "vdiv NaN y = NaN"
  by simp


lemma round2_isna: "isna (round2 v) = isna v"
  by (cases v) simp_all





lemma pct_by_nan: "round2 (vmul (vdiv (vsub x NaN) NaN) (Fin 100)) = NaN"
  by (simp add: vdiv_by_nan)






section \<open>The moving average of the plot\<close>

lemma ema_at_shift:
  "ema_at \<alpha> (w # x # xs) (Suc (Suc i)) = ema_at \<alpha> ((x * \<alpha> + w * (1 - \<alpha>)) # xs) (Suc i)"
  by (induction i) simp_all

lemma ewm_step_fin:
  "ewm_loop \<alpha> (Fin w) 1 (Fin x # ys) =
     Fin (x * \<alpha> + w * (1 - \<alpha>)) # ewm_loop \<alpha> (Fin (x * \<alpha> + w * (1 - \<alpha>))) 1 ys"
  by (simp add: Let_def algebra_simps)

lemma ewm_loop_fin_nth:
  "i < length xs \<Longrightarrow>
     ewm_loop \<alpha> (Fin w) 1 (map Fin xs) ! i = Fin (ema_at \<alpha> (w # xs) (Suc i))"
proof (induction xs arbitrary: w i)
  case Nil
  then show ?case by simp
next
  case (Cons x xs)
  show ?case
  proof (cases i)
    case 0
    then show ?thesis by (simp add: ewm_step_fin del: ewm_loop.simps)
  next
    case (Suc j)
    with Cons.prems have "j < length xs" by simp
    from Cons.IH[OF this, of "x * \<alpha> + w * (1 - \<alpha>)"] Suc show ?thesis
      by (simp add: ewm_step_fin ema_at_shift del: ewm_loop.simps ema_at.simps)
  qed
qed

lemma ewm_mean_fin_nth:
  "i < length cs \<Longrightarrow> ewm_mean \<alpha> (map Fin cs) ! i = Fin (ema_at \<alpha> cs i)"
proof (cases cs)
  case Nil
  assume "i < length cs"
  with Nil show ?thesis by simp
next
  case (Cons c cs')
  assume il: "i < length cs"
  show ?thesis
  proof (cases i)
    case 0
    with Cons show ?thesis by simp
  next
    case (Suc j)
    with il Cons have "j < length cs'" by simp
    from ewm_loop_fin_nth[OF this, of \<alpha> c] Suc Cons show ?thesis
      by (simp del: ewm_loop.simps ema_at.simps)
  qed
qed

lemma length_ewm_loop: "length (ewm_loop \<alpha> w ow xs) = length xs"
  by (induction xs arbitrary: w ow) (simp_all add: Let_def)

lemma length_ewm_mean: "length (ewm_mean \<alpha> xs) = length xs"
  by (cases xs) (simp_all add: length_ewm_loop del: ewm_loop.simps)

lemma derive_closes:
  assumes "derive df = Inr out"
  shows "map ClosePrice out = map ClosePrice df"
proof (rule nth_equalityI)
  show "length (map ClosePrice out) = length (map ClosePrice df)"
    using derive_Inr_length[OF assms] by simp
next
  fix i assume "i < length (map ClosePrice out)"
  then have "i < length df" using derive_Inr_length[OF assms] by simp
  from enriched_price_cells[OF assms this] this derive_Inr_length[OF assms]
  show "map ClosePrice out ! i = map ClosePrice df ! i" by simp
qed

lemma plot_closes:
  "map ClosePrice (df_plot df) = filter (\<lambda>v. \<not> isna v) (map ClosePrice df)"
  by (simp add: df_plot_def filter_map comp_def)

lemma clean_closes:
  "map ClosePrice (clean tn raw) = map (\<lambda>r. clean_numeric tn (raw_ClosePrice r)) (rev raw)"
  by (simp add: clean_def sort_index_desc_def clean_row_def)

text \<open>
  C5, as the code has it. The plotted closes are the known closes in the order of the
  frame, which is the reverse of the provider's order (newest first); nothing re-sorts
  them. Over finite closes the 30-period EMA is the recursion ema[0] = close[0], the
  newest plotted record, and ema[i] = close[i] * \<open>\<alpha>\<close> + ema[i-1] * (1 - \<open>\<alpha>\<close>) with
  \<open>\<alpha>\<close> = 2/31 and no bias adjustment.
\<close>

theorem ema_newest_first:
  assumes "analyse to_numeric raw = Inr df"
    and "map ClosePrice (df_plot df) = map Fin cs"
    and "i < length cs"
  shows "map ClosePrice (df_plot df) =
       filter (\<lambda>v. \<not> isna v) (map (\<lambda>r. clean_numeric to_numeric (raw_ClosePrice r)) (rev raw)) \<and>
     length (ema30 df) = length cs \<and>
     ema30 df ! 0 = Fin (cs ! 0) \<and>
     ema30 df ! i = Fin (ema_at (2 / 31) cs i) \<and>
     (0 < i \<longrightarrow> ema_at (2 / 31) cs i = cs ! i * (2 / 31) + ema_at (2 / 31) cs (i - 1) * (1 - 2 / 31))"
proof -
  from assms(1) have der: "derive (clean to_numeric raw) = Inr df"
    by (simp add: analyse_def)
  have 1: "map ClosePrice (df_plot df) =
       filter (\<lambda>v. \<not> isna v) (map (\<lambda>r. clean_numeric to_numeric (raw_ClosePrice r)) (rev raw))"
    by (simp only: plot_closes derive_closes[OF der] clean_closes)
  have a: "span_alpha 30 = 2 / 31"
    by (simp add: span_alpha_def)
  have e: "ema30 df = ewm_mean (2 / 31) (map Fin cs)"
    by (simp add: ema30_def a assms(2))
  have 2: "length (ema30 df) = length cs"
    by (simp add: e length_ewm_mean)
  from assms(3) have "0 < length cs" by (cases cs) simp_all
  from ewm_mean_fin_nth[OF this, of "2 / 31"] have 3: "ema30 df ! 0 = Fin (cs ! 0)"
    by (simp add: e)
  have 4: "ema30 df ! i = Fin (ema_at (2 / 31) cs i)"
    by (simp only: e ewm_mean_fin_nth[OF assms(3)])
  have 5: "0 < i \<longrightarrow> ema_at (2 / 31) cs i = cs ! i * (2 / 31) + ema_at (2 / 31) cs (i - 1) * (1 - 2 / 31)"
    by (cases i) simp_all
  from 1 2 3 4 5 show ?thesis by blast
qed

lemma example_plot_closes:
  "map ClosePrice (df_plot example_enriched) = map Fin [100, 102, 99, 105]"
  by (simp add: df_plot_def example_enriched_def)

theorem ema_newest_first_witness:
  "analyse parse_decimal example_batch = Inr example_enriched \<and>
   map ClosePrice (df_plot example_enriched) = map Fin [100, 102, 99, 105] \<and>
   (1::nat) < length [100, 102, 99, 105 :: rat] \<and>
   ema30 example_enriched ! 0 = Fin 100 \<and>
   ema30 example_enriched ! 1 = Fin (102 * (2 / 31) + 100 * (1 - 2 / 31))"
proof -
  have len: "(1::nat) < length [100, 102, 99, 105 :: rat]" by simp
  from ema_newest_first[OF analyse_example example_plot_closes len]
    analyse_example example_plot_closes
  show ?thesis by simp
qed

text \<open>
  C5 as stated fails on the batch with closes 100, 102, 99, 105 (newest first): the
  EMA starts at 100, the close of the newest day, not at 105, the close of the oldest.
\<close>

theorem ema_order_counterexample:
  "analyse parse_decimal example_batch = Inr example_enriched \<and>
   map Date example_enriched =
     [Some ''06-Jan-2025'', Some ''03-Jan-2025'', Some ''02-Jan-2025'', Some ''01-Jan-2025''] \<and>
   map ClosePrice (df_plot example_enriched) = [Fin 100, Fin 102, Fin 99, Fin 105] \<and>
   ema30 example_enriched =
     [Fin 100, Fin (3104 / 31), Fin (96154 / 961), Fin (2990276 / 29791)] \<and>
   ema30 example_enriched ! 0 \<noteq> Fin 105"
  by (simp add: analyse_example)
    (simp add: example_enriched_def ema30_def df_plot_def span_alpha_def Let_def)

section \<open>The chart\<close>

lemma enriched_remark_range:
  assumes "derive df = Inr out" "r \<in> set out"
  shows "REMARKS r \<in> {''JACKPOT'', ''ACC(G-LZ)'', ''BR(G-HZ)'', ''NA''}"
proof -
  from assms(2) obtain i where i: "i < length out" "out ! i = r"
    by (auto simp: in_set_conv_nth)
  then have "i < length df" using derive_Inr_length[OF assms(1)] by simp
  from enriched_remark[OF assms(1) this] i remark_of_range show ?thesis
    by metis
qed

lemma four_way_count:
  "\<forall>r\<in>set xs. f r \<in> {a, b, c, d} \<Longrightarrow> distinct [a, b, c, d] \<Longrightarrow>
     length (filter (\<lambda>r. f r = a) xs) + length (filter (\<lambda>r. f r = b) xs) +
     length (filter (\<lambda>r. f r = c) xs) + length (filter (\<lambda>r. f r = d) xs) = length xs"
  by (induction xs) auto

lemma close_line_points:
  "close_line (build_chart td df) =
     map (\<lambda>r. (to_datetime_cell td (Date r), ClosePrice r)) (df_plot df)"
  by (simp add: build_chart_def plot_dates_def zip_map_map zip_same_conv_map)

lemma scatters_eq:
  "scatters (build_chart td df) =
     [(''JACKPOT'', ''green'', scatter_points td df ''JACKPOT''),
      (''ACC(G-LZ)'', ''yellow'', scatter_points td df ''ACC(G-LZ)''),
      (''BR(G-HZ)'', ''red'', scatter_points td df ''BR(G-HZ)'')]"
  by (simp add: build_chart_def colors_def)

lemma length_scatter_points:
  "length (scatter_points td df l) = length (filter (\<lambda>r. REMARKS r = l) (df_plot df))"
  by (simp add: scatter_points_def)

lemma scatter_subset_line:
  "set (scatter_points td df l) \<subseteq> set (close_line (build_chart td df))"
  by (auto simp: close_line_points scatter_points_def)

text \<open>
  C6, as the code has it. In a run that completes, the chart input holds exactly the
  records with a known close price; a record whose date does not parse stays, with its
  date unknown. The chart has one scatter series for each of JACKPOT, ACC(G-LZ) and
  BR(G-HZ), in this order, holding the date/close points of the plotted records with
  that remark, all of them points of the close line; no series is labelled NA, and the
  three series and the plotted NA records together account for every plotted record.
\<close>

theorem chart_series:
  assumes "analyse to_numeric raw = Inr df"
  shows "(let ch = build_chart to_datetime df;
           point = (\<lambda>r. (to_datetime_cell to_datetime (Date r), ClosePrice r)) in
     set (df_plot df) = {r \<in> set df. \<not> isna (ClosePrice r)} \<and>
     close_line ch = map point (df_plot df) \<and>
     map fst (scatters ch) = [''JACKPOT'', ''ACC(G-LZ)'', ''BR(G-HZ)''] \<and>
     (\<forall>(l, c, pts) \<in> set (scatters ch).
        pts = map point (filter (\<lambda>r. REMARKS r = l) (df_plot df)) \<and>
        set pts \<subseteq> set (close_line ch)) \<and>
     (\<forall>(l, c, pts) \<in> set (scatters ch). l \<noteq> ''NA'') \<and>
     sum_list (map (\<lambda>(l, c, pts). length pts) (scatters ch))
       + length (filter (\<lambda>r. REMARKS r = ''NA'') (df_plot df)) = length (df_plot df))"
proof -
  from assms(1) have der: "derive (clean to_numeric raw) = Inr df"
    by (simp add: analyse_def)
  have 1: "set (df_plot df) = {r \<in> set df. \<not> isna (ClosePrice r)}"
    by (auto simp: df_plot_def)
  have rng: "\<forall>r\<in>set (df_plot df). REMARKS r \<in> {''JACKPOT'', ''ACC(G-LZ)'', ''BR(G-HZ)'', ''NA''}"
    using enriched_remark_range[OF der] by (auto simp: df_plot_def)
  have cnt: "length (filter (\<lambda>r. REMARKS r = ''JACKPOT'') (df_plot df)) +
      length (filter (\<lambda>r. REMARKS r = ''ACC(G-LZ)'') (df_plot df)) +
      length (filter (\<lambda>r. REMARKS r = ''BR(G-HZ)'') (df_plot df)) +
      length (filter (\<lambda>r. REMARKS r = ''NA'') (df_plot df)) = length (df_plot df)"
    by (rule four_way_count[OF rng]) simp
  have 6: "sum_list (map (\<lambda>(l, c, pts). length pts) (scatters (build_chart to_datetime df)))
       + length (filter (\<lambda>r. REMARKS r = ''NA'') (df_plot df)) = length (df_plot df)"
    using cnt by (simp add: scatters_eq length_scatter_points)
  have 4: "\<forall>(l, c, pts) \<in> set (scatters (build_chart to_datetime df)).
        pts = map (\<lambda>r. (to_datetime_cell to_datetime (Date r), ClosePrice r))
                (filter (\<lambda>r. REMARKS r = l) (df_plot df)) \<and>
        set pts \<subseteq> set (close_line (build_chart to_datetime df))"
    using scatter_subset_line[of to_datetime df]
    by (simp add: scatters_eq) (simp add: scatter_points_def)
  have 5: "\<forall>(l, c, pts) \<in> set (scatters (build_chart to_datetime df)). l \<noteq> ''NA''"
    by (simp add: scatters_eq)
  have 3: "map fst (scatters (build_chart to_datetime df)) = [''JACKPOT'', ''ACC(G-LZ)'', ''BR(G-HZ)'']"
    by (simp add: scatters_eq)
  from 1 close_line_points[of to_datetime df] 3 4 5 6 show ?thesis
    unfolding Let_def by blast
qed

theorem chart_series_witness:
  "analyse parse_decimal example_batch = Inr example_enriched \<and>
   map fst (scatters (build_chart parse_dmy example_enriched))
     = [''JACKPOT'', ''ACC(G-LZ)'', ''BR(G-HZ)''] \<and>
   sum_list (map (\<lambda>(l, c, pts). length pts) (scatters (build_chart parse_dmy example_enriched)))
     + length (filter (\<lambda>r. REMARKS r = ''NA'') (df_plot example_enriched))
     = length (df_plot example_enriched) \<and>
   length (df_plot example_enriched) = 4"
proof -
  have l: "length (df_plot example_enriched) = 4"
    by (simp add: df_plot_def example_enriched_def)
  from chart_series[OF analyse_example, of parse_dmy] analyse_example l
  show ?thesis unfolding Let_def by blast
qed

text \<open>
  C6 as stated fails on a batch of four days: the two days whose date is the
  placeholder or is in another format are in the close line with an unknown date;
  only the day without a close is left out.
\<close>

lemma odd_dates_close_line:
  "close_line (build_chart parse_dmy odd_dates_enriched)
     = [(Some (2025, 1, 6), Fin 100), (None, Fin 99), (None, Fin 105)]"
  by code_simp

theorem unparsed_date_counterexample:
  "map_sum id (map Date) (analyse parse_decimal odd_dates_batch)
     = Inr [Some ''06-Jan-2025'', Some ''03-Jan-2025'', Some ''2025-01-02'', None] \<and>
   map_sum id (map ClosePrice) (analyse parse_decimal odd_dates_batch)
     = Inr [Fin 100, NaN, Fin 99, Fin 105] \<and>
   map_sum id (close_line \<circ> out_chart) (run parse_decimal parse_dmy odd_dates_batch)
     = Inr [(Some (2025, 1, 6), Fin 100), (None, Fin 99), (None, Fin 105)]"
  by (simp add: run_def analyse_odd_dates odd_dates_close_line)
    (simp add: odd_dates_enriched_def)

section \<open>The empty batch\<close>

lemma analyse_empty: "analyse tn [] = Inl AttributeError"
  by (simp add: analyse_def clean_def sort_index_desc_def derive_def action_col_def mean_skipna_def)

text \<open>
  C8 on the code. With no rows the average of ACTION is the Python float NaN, the call
  of \<open>round\<close> on it raises AttributeError, and the run ends there, whatever the parsers:
  there is no table and no chart.
\<close>

theorem empty_batch_raises: "run to_numeric to_datetime [] = Inl AttributeError"
  by (simp add: run_def analyse_empty)


section \<open>The data table\<close>



lemma length_df_display: "length (df_display df) = min 50 (length df)"
  by (simp add: df_display_def min.commute)

lemma df_display_nth: "i < 50 \<Longrightarrow> i < length df \<Longrightarrow> df_display df ! i = project (df ! i)"
  by (simp add: df_display_def)





section \<open>Records without a close price\<close>

lemma vsub_nan_left: "vsub NaN c = NaN"
  by (simp add: vsub_def)

lemma pct_ichange_nan: "pct_ichange NaN c = NaN"
  by (simp add: pct_ichange_def vsub_nan_left)

lemma length_plot_dates: "length (plot_dates td df) = length (df_plot df)"
  by (simp add: plot_dates_def)

lemma length_ema30: "length (ema30 df) = length (df_plot df)"
  by (simp add: ema30_def length_ewm_mean)

lemma ema_line_length: "length (ema_line (build_chart td df)) = length (df_plot df)"
  by (simp add: build_chart_def length_plot_dates length_ema30)

lemma ema_line_dates: "map fst (ema_line (build_chart td df)) = plot_dates td df"
  by (simp add: build_chart_def length_plot_dates length_ema30)

lemma unknown_close_change:
  assumes "analyse tn raw = Inr df" and "i < length df" and "isna (ClosePrice (df ! i))"
  shows "CHANGE (df ! i) = NaN"
proof -
  from assms(1) have der: "derive (clean tn raw) = Inr df"
    by (simp add: analyse_def)
  have ll: "length df = length (clean tn raw)"
    using assms(1) by (simp add: analyse_length length_clean)
  from assms(2) ll have len: "i < length (clean tn raw)" by simp
  from assms(3) have cn: "ClosePrice (df ! i) = NaN"
    by (cases "ClosePrice (df ! i)") simp_all
  with enriched_price_cells[OF der len] have c0: "ClosePrice (clean tn raw ! i) = NaN"
    by simp
  show ?thesis
  proof (cases "Suc i < length (clean tn raw)")
    case True
    have "ichange_col (clean tn raw) ! Suc i = NaN"
      using c0 by (simp add: ichange_col_nth[OF True] shift_col_nth[OF True] pct_ichange_nan)
    with enriched_price_cells[OF der len] True show ?thesis
      by (simp add: change_col_nth[OF len])
  next
    case False
    with enriched_price_cells[OF der len] show ?thesis
      by (simp add: change_col_nth[OF len])
  qed
qed

text \<open>
  C10, as the code has it. In a run that completes, a record whose close price is
  unknown after cleaning is not in the chart input, from which alone the close line, the
  EMA line and the three marker series are built (no plotted point has an unknown
  close); it stays in the enriched frame, and when it is among the first 50 records of
  the frame it is a row of the table, with its close and its %CHANGE unknown.
\<close>

theorem unknown_close_record:
  assumes "analyse to_numeric raw = Inr df" and "i < length df"
    and "isna (ClosePrice (df ! i))"
  shows "(let ch = build_chart to_datetime df;
           point = (\<lambda>r. (to_datetime_cell to_datetime (Date r), ClosePrice r)) in
     df ! i \<notin> set (df_plot df) \<and>
     close_line ch = map point (df_plot df) \<and>
     map fst (ema_line ch) = map fst (close_line ch) \<and>
     length (ema_line ch) = length (df_plot df) \<and>
     (\<forall>(l, c, pts) \<in> set (scatters ch).
        pts = map point (filter (\<lambda>r. REMARKS r = l) (df_plot df))) \<and>
     (\<forall>p \<in> set (close_line ch). \<not> isna (snd p)) \<and>
     length df = length raw \<and>
     (i < 50 \<longrightarrow> i < length (df_display df) \<and> df_display df ! i = project (df ! i) \<and>
        d_ClosePrice (df_display df ! i) = NaN \<and> d_CHANGE (df_display df ! i) = NaN))"
proof -
  have 1: "df ! i \<notin> set (df_plot df)"
    using assms(3) by (simp add: df_plot_def)
  note 2 = close_line_points[of to_datetime df]
  have 3: "map fst (ema_line (build_chart to_datetime df)) = map fst (close_line (build_chart to_datetime df))"
    by (simp add: ema_line_dates close_line_points plot_dates_def comp_def)
  note 4 = ema_line_length[of to_datetime df]
  have 5: "\<forall>(l, c, pts) \<in> set (scatters (build_chart to_datetime df)).
        pts = map (\<lambda>r. (to_datetime_cell to_datetime (Date r), ClosePrice r))
                (filter (\<lambda>r. REMARKS r = l) (df_plot df))"
    by (simp add: scatters_eq) (simp add: scatter_points_def)
  have 6: "\<forall>p \<in> set (close_line (build_chart to_datetime df)). \<not> isna (snd p)"
    by (auto simp: close_line_points df_plot_def)
  note 7 = analyse_length[OF assms(1)]
  from assms(3) have cn: "ClosePrice (df ! i) = NaN"
    by (cases "ClosePrice (df ! i)") simp_all
  have 8: "i < 50 \<longrightarrow> i < length (df_display df) \<and> df_display df ! i = project (df ! i) \<and>
        d_ClosePrice (df_display df ! i) = NaN \<and> d_CHANGE (df_display df ! i) = NaN"
    using assms(2) cn unknown_close_change[OF assms]
    by (simp add: length_df_display df_display_nth project_def)
  from 1 2 3 4 5 6 7 8 show ?thesis
    unfolding Let_def by blast
qed

theorem unknown_close_record_witness:
  "analyse parse_decimal odd_dates_batch = Inr odd_dates_enriched \<and>
   1 < length odd_dates_enriched \<and>
   isna (ClosePrice (odd_dates_enriched ! 1)) \<and>
   odd_dates_enriched ! 1 \<notin> set (df_plot odd_dates_enriched) \<and>
   (1::nat) < 50 \<and>
   d_ClosePrice (df_display odd_dates_enriched ! 1) = NaN \<and>
   d_CHANGE (df_display odd_dates_enriched ! 1) = NaN"
proof -
  have len: "1 < length odd_dates_enriched"
    by (simp add: odd_dates_enriched_def)
  have na: "isna (ClosePrice (odd_dates_enriched ! 1))"
    by (simp add: odd_dates_enriched_def)
  note t = unknown_close_record[OF analyse_odd_dates len na, of parse_dmy, unfolded Let_def]
  from t have a: "odd_dates_enriched ! 1 \<notin> set (df_plot odd_dates_enriched)"
    by (rule conjunct1)
  from t have b: "1 < (50::nat) \<longrightarrow> 1 < length (df_display odd_dates_enriched) \<and>
        df_display odd_dates_enriched ! 1 = project (odd_dates_enriched ! 1) \<and>
        d_ClosePrice (df_display odd_dates_enriched ! 1) = NaN \<and>
        d_CHANGE (df_display odd_dates_enriched ! 1) = NaN"
    by (elim conjE)
  have c: "(1::nat) < 50" by simp
  from b c have e: "d_ClosePrice (df_display odd_dates_enriched ! 1) = NaN \<and>
        d_CHANGE (df_display odd_dates_enriched ! 1) = NaN"
    by blast
  from analyse_odd_dates len na a c e show ?thesis
    by (intro conjI) (erule conjunct1 conjunct2 | assumption)+
qed

lemma mean_known:
  assumes "v \<in> set xs" and "\<not> isna v"
  shows "\<exists>a. scalar_round2 (mean_skipna xs) = Inr a"
proof -
  from assms have "filter (\<lambda>v. \<not> isna v) xs \<noteq> []"
    by (auto simp: filter_empty_conv)
  then show ?thesis by (simp add: mean_skipna_def Let_def)
qed

lemma derive_succeeds:
  assumes "r \<in> set df" and "\<not> isna (round2 (vdiv (TotalTradedQuantity r) (NoofTrades r)))"
    and "\<not> isna (DlyQttoTradedQty r)"
  shows "\<exists>out. derive df = Inr out"
proof -
  from assms(1) have "round2 (vdiv (TotalTradedQuantity r) (NoofTrades r)) \<in> set (action_col df)"
    by (auto simp: action_col_def)
  from mean_known[OF this assms(2)] obtain a where
    a: "scalar_round2 (mean_skipna (action_col df)) = Inr a" by blast
  from assms(1) have "DlyQttoTradedQty r \<in> set (map DlyQttoTradedQty df)"
    by simp
  from mean_known[OF this assms(3)] obtain d where
    d: "scalar_round2 (mean_skipna (map DlyQttoTradedQty df)) = Inr d" by blast
  from a d show ?thesis by (simp add: derive_def)
qed

lemma late_row_clean:
  "clean_row parse_decimal (mk_raw ''02-Jan-2025'' ''99'' ''400'' ''10'' ''40'') =
     \<lparr> Symbol = Some ''TCS'', Series = Some ''EQ'', Date = Some ''02-Jan-2025'',
       ClosePrice = Fin 99, TotalTradedQuantity = Fin 400, NoofTrades = Fin 10,
       DlyQttoTradedQty = Fin 40 \<rparr>"
  by code_simp

lemma gap_row_close:
  "ClosePrice (clean_row parse_decimal (mk_raw ''01-Jan-2025'' ''-'' ''500'' ''10'' ''60.5'')) = NaN"
  by code_simp

lemma late_row_close:
  "ClosePrice (clean_row parse_decimal (mk_raw ''02-Jan-2025'' ''99'' ''400'' ''10'' ''40'')) = Fin 99"
  by (simp add: late_row_clean)

lemma take_replicate_append: "take n (replicate n x @ ys) = replicate n x"
  by simp

lemma notin_replicate: "a \<noteq> x \<Longrightarrow> a \<notin> set (replicate n x)"
  by simp

lemma late_gap_clean_closes:
  "map ClosePrice (clean parse_decimal late_gap_batch) = replicate 50 (Fin 99) @ [NaN]"
proof -
  have "map ClosePrice (clean parse_decimal late_gap_batch) =
      replicate 50 (ClosePrice (clean_row parse_decimal (mk_raw ''02-Jan-2025'' ''99'' ''400'' ''10'' ''40'')))
      @ [ClosePrice (clean_row parse_decimal (mk_raw ''01-Jan-2025'' ''-'' ''500'' ''10'' ''60.5''))]"
    by (simp only: clean_def sort_index_desc_def late_gap_batch_def rev.simps rev_replicate
        map_append map_replicate list.map)
  then show ?thesis
    by (simp only: late_row_close gap_row_close)
qed

lemma late_gap_analyse: "\<exists>df. analyse parse_decimal late_gap_batch = Inr df"
proof -
  have "clean_row parse_decimal (mk_raw ''02-Jan-2025'' ''99'' ''400'' ''10'' ''40'')
      \<in> set (clean parse_decimal late_gap_batch)"
    by (simp add: clean_def sort_index_desc_def late_gap_batch_def)
  from derive_succeeds[OF this] show ?thesis
    by (simp add: late_row_clean analyse_def rint_of_int)
qed


text \<open>
  C10 as stated fails on a batch of 51 days whose oldest day has no close: that record
  is the 51st of the frame, and the table holds the 50 records before it only.
\<close>

theorem late_gap_counterexample:
  "map_sum id (map ClosePrice) (analyse parse_decimal late_gap_batch)
     = Inr (replicate 50 (Fin 99) @ [NaN]) \<and>
   map_sum id (map d_ClosePrice \<circ> out_table) (run parse_decimal parse_dmy late_gap_batch)
     = Inr (replicate 50 (Fin 99)) \<and>
   NaN \<notin> set (replicate 50 (Fin 99))"
proof -
  from late_gap_analyse obtain df where df: "analyse parse_decimal late_gap_batch = Inr df"
    by blast
  then have der: "derive (clean parse_decimal late_gap_batch) = Inr df"
    by (simp add: analyse_def)
  have c: "map ClosePrice df = replicate 50 (Fin 99) @ [NaN]"
    by (simp only: derive_closes[OF der] late_gap_clean_closes)
  have "map d_ClosePrice (df_display df) = take 50 (map ClosePrice df)"
    by (simp add: df_display_def take_map project_def comp_def)
  then have t: "map d_ClosePrice (df_display df) = replicate 50 (Fin 99)"
    by (simp only: c take_replicate_append)
  have 1: "map_sum id (map ClosePrice) (analyse parse_decimal late_gap_batch)
     = Inr (replicate 50 (Fin 99) @ [NaN])"
    by (simp only: df map_sum.simps c)
  have 2: "map_sum id (map d_ClosePrice \<circ> out_table) (run parse_decimal parse_dmy late_gap_batch)
     = Inr (replicate 50 (Fin 99))"
    using t by (simp add: run_def df)
  have 3: "NaN \<notin> set (replicate 50 (Fin 99))"
    by (rule notin_replicate) simp
  from 1 2 3 show ?thesis by (intro conjI)
qed

end
